theory Spec2Isabelle
  imports Complex_Main "HOL-Library.Sublist" "HOL-Library.Log_Nat"
begin

section \<open>Values, dictionaries and text\<close>

text \<open>
  A license is a Python dictionary from field names to JSON-like values. The adapter
  builds such dictionaries itself; the sample file delivers whatever \<open>json.load\<close>
  reads, so a field can be missing or hold a value that is not text. Dictionaries
  keep their insertion order, hence association lists; \<open>d.get(k, default)\<close> is
  \<open>dict_get\<close>. JSON numbers with a fraction, arrays and nested objects as field values
  are outside the model.

  Text is ASCII: \<open>lower\<close> and \<open>upper\<close> act on the ASCII letters and regard every
  other character as caseless. The row mapping of the adapter does not depend on
  this: it takes \<open>isdigit\<close> and \<open>int\<close> as parameters.
\<close>

datatype pyval = PNone | PBool bool | PInt int | PStr string

datatype py_error = AttributeError | TypeError | ValueError

type_synonym license = "(string \<times> pyval) list"

definition dict_get :: "('k \<times> 'v) list \<Rightarrow> 'k \<Rightarrow> 'v \<Rightarrow> 'v" where
  "dict_get d k dflt = (case map_of d k of Some v \<Rightarrow> v | None \<Rightarrow> dflt)"

text \<open>Python's truth value of an object, as \<open>if x:\<close> and \<open>not x\<close> take it.\<close>

fun truthy :: "pyval \<Rightarrow> bool" where
  "truthy PNone = False"
| "truthy (PBool b) = b"
| "truthy (PInt n) = (n \<noteq> 0)"
| "truthy (PStr s) = (s \<noteq> [])"

definition ascii_lowercase :: string where
  "ascii_lowercase = ''abcdefghijklmnopqrstuvwxyz''"

definition ascii_uppercase :: string where
  "ascii_uppercase = ''ABCDEFGHIJKLMNOPQRSTUVWXYZ''"

definition lower_char :: "char \<Rightarrow> char" where
  "lower_char c =
     (case map_of (zip ascii_uppercase ascii_lowercase) c of Some l \<Rightarrow> l | None \<Rightarrow> c)"

definition upper_char :: "char \<Rightarrow> char" where
  "upper_char c =
     (case map_of (zip ascii_lowercase ascii_uppercase) c of Some u \<Rightarrow> u | None \<Rightarrow> c)"

definition str_lower :: "string \<Rightarrow> string" where
  "str_lower s = map lower_char s"

definition str_upper :: "string \<Rightarrow> string" where
  "str_upper s = map upper_char s"

definition digit_of :: "char \<Rightarrow> int option" where
  "digit_of c =
     (let n = (of_char c :: nat) in if 48 \<le> n \<and> n \<le> 57 then Some (int n - 48) else None)"

section \<open>Calendar dates\<close>

text \<open>
  \<open>datetime.date\<close> of the standard library: a proleptic Gregorian date with
  \<open>1 \<le> year \<le> 9999\<close>. Subtracting two dates subtracts their ordinals
  (\<open>toordinal\<close>, day 1 being 0001-01-01), and \<open>.days\<close> of the difference is that
  number of whole days.
\<close>

record date =
  year :: int
  month :: int
  day :: int

definition is_leap :: "int \<Rightarrow> bool" where
  "is_leap y = (y mod 4 = 0 \<and> (y mod 100 \<noteq> 0 \<or> y mod 400 = 0))"

definition month_lengths :: "int list" where
  "month_lengths = [31, 28, 31, 30, 31, 30, 31, 31, 30, 31, 30, 31]"

definition days_in_month :: "int \<Rightarrow> int \<Rightarrow> int" where
  "days_in_month y m =
     (if m = 2 \<and> is_leap y then 29 else month_lengths ! nat (m - 1))"

definition days_before_year :: "int \<Rightarrow> int" where
  "days_before_year y =
     (let y1 = y - 1 in y1 * 365 + y1 div 4 - y1 div 100 + y1 div 400)"

definition days_before_month :: "int \<Rightarrow> int \<Rightarrow> int" where
  "days_before_month y m =
     sum_list (take (nat (m - 1)) month_lengths) + (if m > 2 \<and> is_leap y then 1 else 0)"

definition toordinal :: "date \<Rightarrow> int" where
  "toordinal d = days_before_year (year d) + days_before_month (year d) (month d) + day d"

text \<open>The constructor \<open>date(y, m, d)\<close> raises \<open>ValueError\<close> outside the calendar.\<close>

definition date_new :: "int \<Rightarrow> int \<Rightarrow> int \<Rightarrow> py_error + date" where
  "date_new y m d =
     (if 1 \<le> y \<and> y \<le> 9999 \<and> 1 \<le> m \<and> m \<le> 12 \<and> 1 \<le> d \<and> d \<le> days_in_month y m
      then Inr \<lparr>year = y, month = m, day = d\<rparr>
      else Inl ValueError)"

text \<open>\<open>(a - b).days\<close> for two dates.\<close>

definition days_between :: "date \<Rightarrow> date \<Rightarrow> int" where
  "days_between a b = toordinal a - toordinal b"

subsection \<open>Parsing with the format \<open>%Y-%m-%d\<close>\<close>

text \<open>
  \<open>datetime.strptime(s, '%Y-%m-%d').date()\<close>. The library matches the text against
  \<^verbatim>\<open>(\d\d\d\d)-(1[0-2]|0[1-9]|[1-9])-(3[0-1]|[1-2]\d|0[1-9]|[1-9]| [1-9])\<close>,
  refuses text left over after the match, and builds the date, which refuses a day
  that the month does not have. Every failure is a \<open>ValueError\<close>. As no alternative
  of the month holds a \<open>-\<close> and the day must reach the end of the text, the month is
  the text between the two dashes and the day is all the text after the second.
\<close>

definition parse_year :: "string \<Rightarrow> int option" where
  "parse_year s =
     (case map digit_of s of
        [Some a, Some b, Some c, Some d] \<Rightarrow> Some (1000 * a + 100 * b + 10 * c + d)
      | _ \<Rightarrow> None)"

definition parse_month :: "string \<Rightarrow> int option" where
  "parse_month s =
     (case map digit_of s of
        [Some a] \<Rightarrow> if 1 \<le> a then Some a else None
      | [Some a, Some b] \<Rightarrow>
          if (a = 1 \<and> b \<le> 2) \<or> (a = 0 \<and> 1 \<le> b) then Some (10 * a + b) else None
      | _ \<Rightarrow> None)"

definition parse_day :: "string \<Rightarrow> int option" where
  "parse_day s =
     (case s of
        [x] \<Rightarrow> (case digit_of x of Some a \<Rightarrow> if 1 \<le> a then Some a else None | None \<Rightarrow> None)
      | [x, y] \<Rightarrow>
          (case (digit_of x, digit_of y) of
             (Some a, Some b) \<Rightarrow>
               if (a = 3 \<and> b \<le> 1) \<or> a = 1 \<or> a = 2 \<or> (a = 0 \<and> 1 \<le> b)
               then Some (10 * a + b) else None
           | (None, Some b) \<Rightarrow> if x = CHR '' '' \<and> 1 \<le> b then Some b else None
           | _ \<Rightarrow> None)
      | _ \<Rightarrow> None)"

definition strptime_ymd :: "string \<Rightarrow> py_error + date" where
  "strptime_ymd s =
     (let rest = drop 5 s;
          mtxt = takeWhile (\<lambda>c. c \<noteq> CHR ''-'') rest;
          after = dropWhile (\<lambda>c. c \<noteq> CHR ''-'') rest
      in if length s < 5 \<or> s ! 4 \<noteq> CHR ''-'' \<or> after = [] then Inl ValueError
         else (case (parse_year (take 4 s), parse_month mtxt, parse_day (tl after)) of
                 (Some y, Some m, Some d) \<Rightarrow> date_new y m d
               | _ \<Rightarrow> Inl ValueError))"

text \<open>
  \<open>strptime\<close> applied to an arbitrary value: anything but a \<open>str\<close> is a
  \<open>TypeError\<close>.
\<close>

fun strptime_val :: "pyval \<Rightarrow> py_error + date" where
  "strptime_val (PStr s) = strptime_ymd s"
| "strptime_val _ = Inl TypeError"

section \<open>Status check (server.py, \<open>check_license_status\<close>)\<close>

text \<open>
  The bare \<open>except\<close> turns every exception of the parse into \<open>False\<close>; the chain
  of comparisons on \<open>status\<close> has a last branch that accepts any other text.
\<close>

definition check_license_status :: "license \<Rightarrow> string \<Rightarrow> date \<Rightarrow> bool" where
  "check_license_status license_data status today =
     (let exp_date_str = dict_get license_data ''expiration'' (PStr '''')
      in if \<not> truthy exp_date_str then False
         else (case strptime_val exp_date_str of
                 Inl e \<Rightarrow> False
               | Inr exp_date \<Rightarrow>
                   (let days_until = days_between exp_date today
                    in if status = ''valid'' then days_until > 30
                       else if status = ''expiring'' then 0 \<le> days_until \<and> days_until \<le> 30
                       else if status = ''expired'' then days_until < 0
                       else True)))"

section \<open>Filtering (server.py, \<open>apply_filters\<close>)\<close>

text \<open>
  \<open>x.lower()\<close> and \<open>x.upper()\<close> exist on text only: on any other value the
  attribute lookup raises \<open>AttributeError\<close>, which leaves \<open>apply_filters\<close>.
\<close>

fun val_lower :: "pyval \<Rightarrow> py_error + string" where
  "val_lower (PStr s) = Inr (str_lower s)"
| "val_lower _ = Inl AttributeError"

fun val_upper :: "pyval \<Rightarrow> py_error + string" where
  "val_upper (PStr s) = Inr (str_upper s)"
| "val_upper _ = Inl AttributeError"

text \<open>
  The condition of the search comprehension; \<open>or\<close> evaluates its right operand only
  when the left one is false, and \<open>a in b\<close> on text is the substring test.
\<close>

definition search_matches :: "string \<Rightarrow> license \<Rightarrow> py_error + bool" where
  "search_matches search_term item =
     (case val_lower (dict_get item ''firstName'' (PStr '''')) of
        Inl e \<Rightarrow> Inl e
      | Inr first_name \<Rightarrow>
          if sublist search_term first_name then Inr True
          else (case val_lower (dict_get item ''lastName'' (PStr '''')) of
                  Inl e \<Rightarrow> Inl e
                | Inr last_name \<Rightarrow>
                    if sublist search_term last_name then Inr True
                    else (case val_lower (dict_get item ''licenseNumber'' (PStr '''')) of
                            Inl e \<Rightarrow> Inl e
                          | Inr number \<Rightarrow> Inr (sublist search_term number))))"

definition state_matches :: "string \<Rightarrow> license \<Rightarrow> py_error + bool" where
  "state_matches state_filter item =
     (case val_upper (dict_get item ''state'' (PStr '''')) of
        Inl e \<Rightarrow> Inl e
      | Inr st \<Rightarrow> Inr (st = str_upper state_filter))"

text \<open>A list comprehension \<open>[x for x in xs if p(x)]\<close> whose condition may raise.\<close>

fun comprehension :: "('a \<Rightarrow> py_error + bool) \<Rightarrow> 'a list \<Rightarrow> py_error + 'a list" where
  "comprehension p [] = Inr []"
| "comprehension p (x # xs) =
     (case p x of
        Inl e \<Rightarrow> Inl e
      | Inr b \<Rightarrow>
          (case comprehension p xs of
             Inl e \<Rightarrow> Inl e
           | Inr ys \<Rightarrow> Inr (if b then x # ys else ys)))"

text \<open>
  \<open>filters\<close> is the query string of the request, a multi-dictionary whose \<open>get\<close>
  returns the first value of a key: the list of its pairs. \<open>today\<close> is the date the
  clock gives when the status filter runs.
\<close>

definition apply_filters ::
  "date \<Rightarrow> license list \<Rightarrow> (string \<times> string) list \<Rightarrow> py_error + license list" where
  "apply_filters today data filters =
     (if filters = [] then Inr data
      else
        let search_term = str_lower (dict_get filters ''search'' '''') in
        case (if search_term \<noteq> [] then comprehension (search_matches search_term) data
              else Inr data) of
          Inl e \<Rightarrow> Inl e
        | Inr found \<Rightarrow>
            let state_filter = dict_get filters ''state'' '''' in
            case (if state_filter \<noteq> [] then comprehension (state_matches state_filter) found
                  else Inr found) of
              Inl e \<Rightarrow> Inl e
            | Inr in_state \<Rightarrow>
                let status_filter = dict_get filters ''status'' '''' in
                Inr (if status_filter \<noteq> []
                     then filter (\<lambda>item. check_license_status item status_filter today) in_state
                     else in_state))"

section \<open>Statistics (server.py, \<open>get_stats\<close>)\<close>

text \<open>
  The keys of \<open>by_state\<close> are whatever values the records hold under \<open>state\<close>. A
  Python dictionary compares keys with \<open>==\<close>, under which \<open>True\<close> is \<open>1\<close> and
  \<open>False\<close> is \<open>0\<close>; a key that is already present keeps its first spelling and
  its position.
\<close>

fun num_of :: "pyval \<Rightarrow> int option" where
  "num_of (PBool b) = Some (if b then 1 else 0)"
| "num_of (PInt n) = Some n"
| "num_of _ = None"

definition py_eq :: "pyval \<Rightarrow> pyval \<Rightarrow> bool" where
  "py_eq a b =
     (case (num_of a, num_of b) of
        (Some x, Some y) \<Rightarrow> x = y
      | (None, None) \<Rightarrow> a = b
      | _ \<Rightarrow> False)"

fun pydict_get :: "(pyval \<times> 'v) list \<Rightarrow> pyval \<Rightarrow> 'v \<Rightarrow> 'v" where
  "pydict_get [] k dflt = dflt"
| "pydict_get ((k', v) # d) k dflt = (if py_eq k' k then v else pydict_get d k dflt)"

fun pydict_set :: "(pyval \<times> 'v) list \<Rightarrow> pyval \<Rightarrow> 'v \<Rightarrow> (pyval \<times> 'v) list" where
  "pydict_set [] k v = [(k, v)]"
| "pydict_set ((k', v') # d) k v =
     (if py_eq k' k then (k', v) # d else (k', v') # pydict_set d k v)"

record stats =
  total_licenses :: int
  by_state :: "(pyval \<times> int) list"
  expiring_soon :: int
  expired :: int
  organ_donors :: int

text \<open>The body of the loop over the records.\<close>

definition stats_step :: "date \<Rightarrow> stats \<Rightarrow> license \<Rightarrow> stats" where
  "stats_step today st license_data =
     (let state = dict_get license_data ''state'' (PStr ''Unknown'');
          st1 = st\<lparr>by_state := pydict_set (by_state st) state
                                  (pydict_get (by_state st) state 0 + 1)\<rparr>;
          st2 = (if truthy (dict_get license_data ''organDonor'' PNone)
                 then st1\<lparr>organ_donors := organ_donors st1 + 1\<rparr> else st1);
          exp_date_str = dict_get license_data ''expiration'' (PStr '''')
      in if truthy exp_date_str
         then (case strptime_val exp_date_str of
                 Inl e \<Rightarrow> st2
               | Inr exp_date \<Rightarrow>
                   (let days_until = days_between exp_date today
                    in if days_until < 0 then st2\<lparr>expired := expired st2 + 1\<rparr>
                       else if days_until \<le> 30
                       then st2\<lparr>expiring_soon := expiring_soon st2 + 1\<rparr>
                       else st2))
         else st2)"

definition get_stats :: "date \<Rightarrow> license list \<Rightarrow> stats" where
  "get_stats today data =
     foldl (stats_step today)
       \<lparr>total_licenses = int (length data), by_state = [], expiring_soon = 0,
        expired = 0, organ_donors = 0\<rparr>
       data"

section \<open>The adapter (google_sheets.py)\<close>

text \<open>
  What the outside world answers during one call of the server: the rows the
  spreadsheet service returns (\<open>None\<close> when the request raises), the records in
  \<open>sample_data.json\<close> (\<open>None\<close> when the file cannot be opened or read), and the
  two readings of the clock, in microseconds. Every request to the service and every
  attempt to open the file is recorded as an event.
\<close>

record outside =
  api_values :: "string list list option"
  sample_file :: "license list option"
  now_at_check :: int
  now_at_store :: int

datatype io_event = SheetsRequest | OpenSampleFile

datatype connector = Connector (service: bool)

definition get_sheet_data :: "connector \<Rightarrow> outside \<Rightarrow> string list list \<times> io_event list" where
  "get_sheet_data self w =
     (if \<not> service self then ([], [])
      else (case api_values w of
              None \<Rightarrow> ([], [SheetsRequest])
            | Some values \<Rightarrow> (if values = [] then [] else values, [SheetsRequest])))"

text \<open>
  The row mapping calls two built-in functions of the interpreter, \<open>str.isdigit\<close>
  and \<open>int\<close>, on the weight cell; they are parameters of the mapping, so that what
  is proved of it holds whatever they do on a given text. \<open>int\<close> can raise
  \<open>ValueError\<close> on a text that \<open>isdigit\<close> accepts; nothing else in the mapping can
  raise. The dictionary is built only when the conversion has succeeded.
\<close>

definition cell :: "string list \<Rightarrow> nat \<Rightarrow> string" where
  "cell row n = (if length row > n then row ! n else '''')"

definition map_row ::
  "(string \<Rightarrow> bool) \<Rightarrow> (string \<Rightarrow> py_error + int) \<Rightarrow> nat \<Rightarrow> string list
     \<Rightarrow> py_error + license" where
  "map_row isdigit to_int i row =
     (case (if length row > 11 \<and> isdigit (row ! 11) then to_int (row ! 11) else Inr 0) of
        Inl e \<Rightarrow> Inl e
      | Inr weight \<Rightarrow>
          Inr [(''id'', PInt (int i + 1)),
               (''firstName'', PStr (cell row 1)),
               (''lastName'', PStr (cell row 2)),
               (''middleInitial'', PStr (cell row 3)),
               (''dateOfBirth'', PStr (cell row 4)),
               (''state'', PStr (cell row 5)),
               (''licenseNumber'', PStr (cell row 6)),
               (''city'', PStr (cell row 7)),
               (''street'', PStr (cell row 8)),
               (''zipCode'', PStr (cell row 9)),
               (''height'', PStr (cell row 10)),
               (''weight'', PInt weight),
               (''eyeColor'', PStr (cell row 12)),
               (''hairColor'', PStr (cell row 13)),
               (''expiration'', PStr (cell row 14)),
               (''licenseClass'', PStr ''''),
               (''restrictions'', PStr ''''),
               (''organDonor'', PBool False)])"

text \<open>
  The loop \<open>for i, row in enumerate(data_rows)\<close>, \<open>i\<close> being the index: an empty
  row is skipped by \<open>continue\<close>, and so is a row whose mapping raises, by the
  \<open>except\<close> branch; the index advances in both cases.
\<close>

fun rows_loop ::
  "(string \<Rightarrow> bool) \<Rightarrow> (string \<Rightarrow> py_error + int) \<Rightarrow> nat \<Rightarrow> string list list
     \<Rightarrow> license list" where
  "rows_loop isdigit to_int i [] = []"
| "rows_loop isdigit to_int i (row # rows) =
     (if row = [] then rows_loop isdigit to_int (Suc i) rows
      else (case map_row isdigit to_int i row of
              Inl e \<Rightarrow> rows_loop isdigit to_int (Suc i) rows
            | Inr license_data \<Rightarrow> license_data # rows_loop isdigit to_int (Suc i) rows))"

text \<open>The part of the method \<open>get_license_data\<close> that follows the fetch.\<close>

definition licenses_of_rows ::
  "(string \<Rightarrow> bool) \<Rightarrow> (string \<Rightarrow> py_error + int) \<Rightarrow> string list list
     \<Rightarrow> license list" where
  "licenses_of_rows isdigit to_int raw_data =
     (if raw_data = [] then []
      else let data_rows = tl raw_data in rows_loop isdigit to_int 0 data_rows)"

text \<open>
  The two built-in functions on ASCII text, with which the server runs the mapping
  here: \<open>isdigit\<close> holds of a nonempty text of digits, and \<open>int\<close> of such a text is
  its decimal value, unless it has more than 4300 digits, which the interpreter
  refuses with \<open>ValueError\<close> (the default limit of CPython 3.11 and later).
\<close>

definition str_isdigit :: "string \<Rightarrow> bool" where
  "str_isdigit s = (s \<noteq> [] \<and> list_all (\<lambda>c. digit_of c \<noteq> None) s)"

definition digits_value :: "string \<Rightarrow> int" where
  "digits_value s = foldl (\<lambda>n c. 10 * n + (case digit_of c of Some d \<Rightarrow> d | None \<Rightarrow> 0)) 0 s"

definition int_of_digits :: "string \<Rightarrow> py_error + int" where
  "int_of_digits s = (if length s > 4300 then Inl ValueError else Inr (digits_value s))"

definition GoogleSheetsConnector_get_license_data ::
  "connector \<Rightarrow> outside \<Rightarrow> license list \<times> io_event list" where
  "GoogleSheetsConnector_get_license_data self w =
     (let (raw_data, events) = get_sheet_data self w
      in (licenses_of_rows str_isdigit int_of_digits raw_data, events))"

section \<open>The cache (server.py, \<open>get_license_data\<close> and \<open>refresh_data\<close>)\<close>

text \<open>
  The three globals of the server and the two entries of \<open>CONFIG\<close> the cache reads.
  Times are microseconds, the resolution of \<open>datetime\<close>; the timeout is a whole
  number of seconds. \<open>cached_data and cache_timestamp\<close> asks for the truth of both
  objects: a list is true when it is not empty, a \<open>datetime\<close> always.
\<close>

record server_state =
  sheets_connector :: "connector option"
  cached_data :: "license list option"
  cache_timestamp :: "int option"

record config =
  GOOGLE_SHEET_ID :: string
  CACHE_TIMEOUT :: int

text \<open>
  \<open>timedelta.total_seconds()\<close> divides the whole number of microseconds by
  \<open>10**6\<close> and returns the nearest double, ties going to the even mantissa. For a
  duration of \<open>a > 0\<close> microseconds, \<open>s\<close> is the exponent of \<open>a * 2^20 / 10^6\<close>
  (which is at least 1; \<open>bitlen\<close> is the number of binary digits), so that
  \<open>a * 2^72 / (10^6 * 2^s)\<close> lies between \<open>2^52\<close> and \<open>2^53\<close>: rounded to a whole
  number it is the mantissa \<open>q\<close>, and the double is \<open>q * 2^s / 2^72\<close>. The exponent
  range of a double is no limit for the durations \<open>datetime\<close> can hold. The result
  is compared with the timeout, an \<open>int\<close>, exactly.
\<close>

definition round_half_even :: "int \<Rightarrow> int \<Rightarrow> int" where
  "round_half_even a d =
     (let f = a div d; r = a mod d
      in if 2 * r < d then f else if d < 2 * r then f + 1
         else if even f then f else f + 1)"

definition total_seconds :: "int \<Rightarrow> rat" where
  "total_seconds us =
     (if us = 0 then 0
      else let a = \<bar>us\<bar>;
               s = nat (bitlen (a * 2 ^ 20 div 1000000) - 1);
               q = round_half_even (a * 2 ^ 72) (1000000 * 2 ^ s)
           in of_int (sgn us * q * 2 ^ s) / 2 ^ 72)"

definition cache_is_valid :: "config \<Rightarrow> outside \<Rightarrow> bool \<Rightarrow> server_state \<Rightarrow> bool" where
  "cache_is_valid cfg w force_refresh st =
     (case (cached_data st, cache_timestamp st) of
        (Some d, Some ts) \<Rightarrow>
          \<not> force_refresh \<and> d \<noteq> []
          \<and> total_seconds (now_at_check w - ts) < of_int (CACHE_TIMEOUT cfg)
      | _ \<Rightarrow> False)"

definition fetch_from_sheets ::
  "config \<Rightarrow> outside \<Rightarrow> server_state \<Rightarrow> license list \<times> io_event list" where
  "fetch_from_sheets cfg w st =
     (case sheets_connector st of
        None \<Rightarrow> ([], [])
      | Some c \<Rightarrow>
          if GOOGLE_SHEET_ID cfg \<noteq> ''YOUR_SHEET_ID_HERE''
          then GoogleSheetsConnector_get_license_data c w
          else ([], []))"

definition get_license_data ::
  "config \<Rightarrow> outside \<Rightarrow> bool \<Rightarrow> server_state
     \<Rightarrow> license list \<times> server_state \<times> io_event list" where
  "get_license_data cfg w force_refresh st =
     (if cache_is_valid cfg w force_refresh st
      then (case cached_data st of Some d \<Rightarrow> (d, st, []) | None \<Rightarrow> ([], st, []))
      else
        let (licenses, events) = fetch_from_sheets cfg w st in
        if licenses \<noteq> []
        then (licenses,
              st\<lparr>cached_data := Some licenses, cache_timestamp := Some (now_at_store w)\<rparr>,
              events)
        else (case sample_file w of
                Some sample \<Rightarrow>
                  (sample,
                   st\<lparr>cached_data := Some sample, cache_timestamp := Some (now_at_store w)\<rparr>,
                   events @ [OpenSampleFile])
              | None \<Rightarrow> ([], st, events @ [OpenSampleFile])))"

text \<open>
  The handler of \<open>/api/refresh\<close> clears both globals and then asks for the data with
  \<open>force_refresh=True\<close>; its reply carries the number of records loaded.
\<close>

definition refresh_data ::
  "config \<Rightarrow> outside \<Rightarrow> server_state \<Rightarrow> int \<times> server_state \<times> io_event list" where
  "refresh_data cfg w st =
     (let (data, st', events) =
            get_license_data cfg w True (st\<lparr>cached_data := None, cache_timestamp := None\<rparr>)
      in (int (length data), st', events))"

section \<open>The barcode handler (server.py, \<open>generate_pdf417\<close>)\<close>

text \<open>
  The encoder and the image library are outside the repository: \<open>pdf417_encode\<close>
  and \<open>png_base64\<close> are parameters, each returning either the message of the
  exception it raises or its result. A reply is a JSON object and a status code; the
  texts handed to the encoder are recorded.
\<close>

datatype json = JBool bool | JStr string

type_synonym response = "(string \<times> json) list \<times> nat"

definition rectangles :: "int list list \<Rightarrow> (int \<times> int \<times> int \<times> int) list" where
  "rectangles barcode =
     concat (map (\<lambda>(y, row).
                    map (\<lambda>(x, bit). (int x * 4 + 20, int y * 4 + 20,
                                      int x * 4 + 20 + 4, int y * 4 + 20 + 4))
                        (filter (\<lambda>(x, bit). bit \<noteq> 0) (enumerate 0 row)))
                 (enumerate 0 barcode))"

definition generate_pdf417 ::
  "bool \<Rightarrow> (string \<Rightarrow> string + int list list)
     \<Rightarrow> (int \<Rightarrow> int \<Rightarrow> (int \<times> int \<times> int \<times> int) list \<Rightarrow> string + string)
     \<Rightarrow> (string \<times> string) list \<Rightarrow> response \<times> string list" where
  "generate_pdf417 PDF417_AVAILABLE pdf417_encode png_base64 args =
     (let data = dict_get args ''data'' '''' in
      if data = []
      then (([(''success'', JBool False), (''error'', JStr ''No data provided'')], 400), [])
      else if \<not> PDF417_AVAILABLE
      then (([(''success'', JBool False), (''error'', JStr ''PDF417 library not available'')],
             500), [])
      else (case pdf417_encode data of
              Inl msg \<Rightarrow> (([(''success'', JBool False), (''error'', JStr msg)], 500), [data])
            | Inr barcode \<Rightarrow>
                (let rows = int (length barcode);
                     cols = (if barcode \<noteq> [] then int (length (hd barcode)) else 0);
                     pixel_size = 4;
                     width = cols * pixel_size + 40;
                     height = rows * pixel_size + 40
                 in case png_base64 width height (rectangles barcode) of
                      Inl msg \<Rightarrow>
                        (([(''success'', JBool False), (''error'', JStr msg)], 500), [data])
                    | Inr img_base64 \<Rightarrow>
                        (([(''success'', JBool True),
                           (''barcode'', JStr (''data:image/png;base64,'' @ img_base64))],
                          200), [data]))))"

section \<open>Notions the properties are stated with\<close>

text \<open>
  The expiration date of a record, when it has one that parses: the field is
  present, is not empty and \<open>strptime\<close> accepts it.
\<close>

definition expiration_date :: "license \<Rightarrow> date option" where
  "expiration_date item =
     (let v = dict_get item ''expiration'' (PStr '''')
      in if truthy v then (case strptime_val v of Inr d \<Rightarrow> Some d | Inl e \<Rightarrow> None)
         else None)"



text \<open>The identifiers of a list of records, in order.\<close>

definition ids_of :: "license list \<Rightarrow> pyval list" where
  "ids_of ls = map (\<lambda>l. dict_get l ''id'' PNone) ls"

text \<open>
  A row of the sheet is mapped to a record when the loop does not skip it: it is
  not empty and its mapping does not raise.
\<close>

definition row_mapped ::
  "(string \<Rightarrow> bool) \<Rightarrow> (string \<Rightarrow> py_error + int) \<Rightarrow> string list \<Rightarrow> bool" where
  "row_mapped isdigit to_int row =
     (row \<noteq> [] \<and> (case map_row isdigit to_int 0 row of Inl e \<Rightarrow> False | Inr l \<Rightarrow> True))"

section \<open>Facts shared by the properties\<close>

lemmas date_eval = strptime_ymd_def parse_year_def parse_month_def parse_day_def digit_of_def
  date_new_def days_in_month_def month_lengths_def is_leap_def days_between_def toordinal_def
  days_before_year_def days_before_month_def

lemma check_license_status_expiration_date:
  "check_license_status item status today =
     (case expiration_date item of
        None \<Rightarrow> False
      | Some d \<Rightarrow>
          (if status = ''valid'' then days_between d today > 30
           else if status = ''expiring''
           then 0 \<le> days_between d today \<and> days_between d today \<le> 30
           else if status = ''expired'' then days_between d today < 0
           else True))"
  unfolding check_license_status_def expiration_date_def Let_def
  by (simp split: sum.split)

lemma comprehension_Inr:
  "comprehension p xs = Inr ys \<Longrightarrow> ys = filter (\<lambda>x. p x = Inr True) xs"
  by (induction xs arbitrary: ys) (auto split: sum.splits if_splits)


lemma str_lower_Nil_iff: "str_lower s = [] \<longleftrightarrow> s = []"
  by (simp add: str_lower_def)

text \<open>
  Whenever \<open>apply_filters\<close> returns a list, it is the input filtered three times, each
  filter being the identity when its parameter is absent or empty.
\<close>

lemma apply_filters_Inr:
  assumes "apply_filters today data filters = Inr out"
  shows "out = filter (\<lambda>item. dict_get filters ''status'' '''' = [] \<or>
                         check_license_status item (dict_get filters ''status'' '''') today)
                (filter (\<lambda>item. dict_get filters ''state'' '''' = [] \<or>
                           state_matches (dict_get filters ''state'' '''') item = Inr True)
                   (filter (\<lambda>item. dict_get filters ''search'' '''' = [] \<or>
                              search_matches (str_lower (dict_get filters ''search'' '''')) item
                                = Inr True)
                      data))"
proof (cases "filters = []")
  case True
  with assms show ?thesis by (simp add: apply_filters_def dict_get_def)
next
  case False
  with assms show ?thesis
    unfolding apply_filters_def Let_def
    by (auto split: sum.splits if_splits dest!: comprehension_Inr simp: str_lower_Nil_iff)
qed

lemma apply_filters_subseq:
  "apply_filters today data filters = Inr out \<Longrightarrow> subseq out data"
  by (drule apply_filters_Inr) (auto intro: subseq_order.order_trans [OF subseq_filter_left])






section \<open>The status classifier\<close>

text \<open>
  Claim C1. For a record whose expiration date parses to \<open>e\<close> and for every date
  \<open>today\<close>, with \<open>days_between e today\<close> the whole-day difference: the record has
  status \<open>expired\<close> exactly when the difference is negative, \<open>expiring\<close> exactly when
  it lies between 0 and 30 inclusive, and \<open>valid\<close> exactly when it exceeds 30. So
  each record has exactly one of the three, a difference of 30 is \<open>expiring\<close>, of 31
  \<open>valid\<close> and of -1 \<open>expired\<close>.
\<close>

theorem status_classification:
  assumes "expiration_date item = Some e"
  shows "(check_license_status item ''expired'' today \<longleftrightarrow> days_between e today < 0)
       \<and> (check_license_status item ''expiring'' today
            \<longleftrightarrow> 0 \<le> days_between e today \<and> days_between e today \<le> 30)
       \<and> (check_license_status item ''valid'' today \<longleftrightarrow> 30 < days_between e today)"
  using assms by (simp add: check_license_status_expiration_date)

text \<open>
  The boundaries on the calendar: 2024-03-01 is 30 days after 2024-01-31 and 31 days
  after 2024-01-30 (a leap year), and one day before 2024-03-02.
\<close>

theorem status_classification_witness:
  "expiration_date [(''expiration'', PStr ''2024-03-01'')]
     = Some \<lparr>year = 2024, month = 3, day = 1\<rparr>
   \<and> days_between \<lparr>year = 2024, month = 3, day = 1\<rparr> \<lparr>year = 2024, month = 1, day = 31\<rparr> = 30
   \<and> check_license_status [(''expiration'', PStr ''2024-03-01'')] ''expiring''
        \<lparr>year = 2024, month = 1, day = 31\<rparr>
   \<and> \<not> check_license_status [(''expiration'', PStr ''2024-03-01'')] ''valid''
        \<lparr>year = 2024, month = 1, day = 31\<rparr>
   \<and> days_between \<lparr>year = 2024, month = 3, day = 1\<rparr> \<lparr>year = 2024, month = 1, day = 30\<rparr> = 31
   \<and> check_license_status [(''expiration'', PStr ''2024-03-01'')] ''valid''
        \<lparr>year = 2024, month = 1, day = 30\<rparr>
   \<and> days_between \<lparr>year = 2024, month = 3, day = 1\<rparr> \<lparr>year = 2024, month = 3, day = 2\<rparr> = - 1
   \<and> check_license_status [(''expiration'', PStr ''2024-03-01'')] ''expired''
        \<lparr>year = 2024, month = 3, day = 2\<rparr>"
proof -
  have e: "expiration_date [(''expiration'', PStr ''2024-03-01'')]
             = Some \<lparr>year = 2024, month = 3, day = 1\<rparr>"
    by (simp add: expiration_date_def dict_get_def date_eval)
  have d30: "days_between \<lparr>year = 2024, month = 3, day = 1\<rparr>
               \<lparr>year = 2024, month = 1, day = 31\<rparr> = 30"
    by (simp add: date_eval)
  have d31: "days_between \<lparr>year = 2024, month = 3, day = 1\<rparr>
               \<lparr>year = 2024, month = 1, day = 30\<rparr> = 31"
    by (simp add: date_eval)
  have d1: "days_between \<lparr>year = 2024, month = 3, day = 1\<rparr>
               \<lparr>year = 2024, month = 3, day = 2\<rparr> = - 1"
    by (simp add: date_eval)
  show ?thesis
    using status_classification [OF e, of "\<lparr>year = 2024, month = 1, day = 31\<rparr>"]
      status_classification [OF e, of "\<lparr>year = 2024, month = 1, day = 30\<rparr>"]
      status_classification [OF e, of "\<lparr>year = 2024, month = 3, day = 2\<rparr>"]
    by (simp only: e d30 d31 d1) simp
qed

lemma expiration_date_None_iff:
  "expiration_date item = None \<longleftrightarrow>
     (\<not> truthy (dict_get item ''expiration'' (PStr ''''))
      \<or> (\<exists>err. strptime_val (dict_get item ''expiration'' (PStr '''')) = Inl err))"
  by (auto simp: expiration_date_def Let_def split: sum.splits)

lemmas filter_eval = apply_filters_def dict_get_def str_lower_def str_upper_def lower_char_def
  upper_char_def ascii_lowercase_def ascii_uppercase_def state_matches_def search_matches_def

section \<open>Filtering\<close>

text \<open>
  Claim C5. Filtering with no filter parameter set returns the record set itself, the
  same elements in the same order: so it is when the query string is empty and when
  none of \<open>search\<close>, \<open>state\<close> and \<open>status\<close> has a nonempty value. Whatever the
  parameters, a list that \<open>apply_filters\<close> returns is a subsequence of its input:
  the surviving records keep their relative order.
\<close>

theorem unset_filters_identity_and_order:
  "(dict_get filters ''search'' '''' = [] \<and> dict_get filters ''state'' '''' = []
      \<and> dict_get filters ''status'' '''' = [] \<longrightarrow> apply_filters today R filters = Inr R)
   \<and> apply_filters today R [] = Inr R
   \<and> (\<forall>out. apply_filters today R filters = Inr out \<longrightarrow> subseq out R)"
  by (auto simp: apply_filters_def str_lower_Nil_iff intro: apply_filters_subseq)

theorem unset_filters_identity_and_order_witness:
  "dict_get [(''search'', ''''), (''page'', ''2'')] ''search'' '''' = []
   \<and> dict_get [(''search'', ''''), (''page'', ''2'')] ''state'' '''' = []
   \<and> dict_get [(''search'', ''''), (''page'', ''2'')] ''status'' '''' = []
   \<and> apply_filters \<lparr>year = 2024, month = 1, day = 1\<rparr>
        [[(''state'', PStr ''CA'')], [(''state'', PStr ''NY'')], [(''state'', PStr ''ca'')]]
        [(''search'', ''''), (''page'', ''2'')]
      = Inr [[(''state'', PStr ''CA'')], [(''state'', PStr ''NY'')], [(''state'', PStr ''ca'')]]
   \<and> apply_filters \<lparr>year = 2024, month = 1, day = 1\<rparr>
        [[(''state'', PStr ''CA'')], [(''state'', PStr ''NY'')], [(''state'', PStr ''ca'')]]
        [(''state'', ''Ca'')]
      = Inr [[(''state'', PStr ''CA'')], [(''state'', PStr ''ca'')]]
   \<and> subseq [[(''state'', PStr ''CA'')], [(''state'', PStr ''ca'')]]
        [[(''state'', PStr ''CA'')], [(''state'', PStr ''NY'')], [(''state'', PStr ''ca'')]]"
proof -
  have unset: "dict_get [(''search'', ''''), (''page'', ''2'')] ''search'' '''' = []
      \<and> dict_get [(''search'', ''''), (''page'', ''2'')] ''state'' '''' = []
      \<and> dict_get [(''search'', ''''), (''page'', ''2'')] ''status'' '''' = []"
    by (simp add: dict_get_def)
  have run: "apply_filters \<lparr>year = 2024, month = 1, day = 1\<rparr>
        [[(''state'', PStr ''CA'')], [(''state'', PStr ''NY'')], [(''state'', PStr ''ca'')]]
        [(''state'', ''Ca'')]
      = Inr [[(''state'', PStr ''CA'')], [(''state'', PStr ''ca'')]]"
    by (simp add: filter_eval)
  show ?thesis
    using unset run
      unset_filters_identity_and_order
        [where filters = "[(''search'', ''''), (''page'', ''2'')]"
           and today = "\<lparr>year = 2024, month = 1, day = 1\<rparr>"
           and R = "[[(''state'', PStr ''CA'')], [(''state'', PStr ''NY'')],
                     [(''state'', PStr ''ca'')]]"]
      unset_filters_identity_and_order
        [where filters = "[(''state'', ''Ca'')]"
           and today = "\<lparr>year = 2024, month = 1, day = 1\<rparr>"
           and R = "[[(''state'', PStr ''CA'')], [(''state'', PStr ''NY'')],
                     [(''state'', PStr ''ca'')]]"]
    by blast
qed




text \<open>
  Claim C7. A record whose expiration field is missing, empty or otherwise false, or
  does not parse as a date, matches no status: \<open>check_license_status\<close> is false for
  every status value and every \<open>today\<close>, and whenever a status filter is applied
  (its value is not empty) the record is not in the list \<open>apply_filters\<close> returns.
\<close>

theorem unparseable_expiration_matches_no_status:
  assumes "\<not> truthy (dict_get item ''expiration'' (PStr ''''))
           \<or> (\<exists>err. strptime_val (dict_get item ''expiration'' (PStr '''')) = Inl err)"
  shows "\<not> check_license_status item status today
       \<and> (\<forall>data filters out. dict_get filters ''status'' '''' \<noteq> []
             \<and> apply_filters today data filters = Inr out \<longrightarrow> item \<notin> set out)"
proof (intro conjI allI impI)
  from assms have none: "expiration_date item = None"
    by (simp add: expiration_date_None_iff)
  then show "\<not> check_license_status item status today"
    by (simp add: check_license_status_expiration_date)
  fix data filters out
  assume a: "dict_get filters ''status'' '''' \<noteq> [] \<and> apply_filters today data filters = Inr out"
  then have "apply_filters today data filters = Inr out" by simp
  from apply_filters_Inr [OF this] a none show "item \<notin> set out"
    by (simp add: check_license_status_expiration_date)
qed

theorem unparseable_expiration_matches_no_status_witness:
  "strptime_val (dict_get [(''expiration'', PStr ''2023-02-29'')] ''expiration'' (PStr ''''))
     = Inl ValueError
   \<and> \<not> check_license_status [(''expiration'', PStr ''2023-02-29'')] ''expired''
        \<lparr>year = 2024, month = 1, day = 1\<rparr>
   \<and> \<not> truthy (dict_get [(''id'', PInt 2)] ''expiration'' (PStr ''''))
   \<and> \<not> check_license_status [(''id'', PInt 2)] ''anything'' \<lparr>year = 2024, month = 1, day = 1\<rparr>
   \<and> apply_filters \<lparr>year = 2024, month = 1, day = 1\<rparr>
        [[(''expiration'', PStr ''2023-02-29'')], [(''expiration'', PStr ''2023-02-28'')]]
        [(''status'', ''expired'')]
      = Inr [[(''expiration'', PStr ''2023-02-28'')]]
   \<and> [(''expiration'', PStr ''2023-02-29'')] \<notin> set [[(''expiration'', PStr ''2023-02-28'')]]"
proof -
  have bad: "strptime_val (dict_get [(''expiration'', PStr ''2023-02-29'')] ''expiration''
               (PStr '''')) = Inl ValueError"
    by (simp add: dict_get_def date_eval)
  have missing: "\<not> truthy (dict_get [(''id'', PInt 2)] ''expiration'' (PStr ''''))"
    by (simp add: dict_get_def)
  have run: "dict_get [(''status'', ''expired'')] ''status'' '''' \<noteq> []
      \<and> apply_filters \<lparr>year = 2024, month = 1, day = 1\<rparr>
        [[(''expiration'', PStr ''2023-02-29'')], [(''expiration'', PStr ''2023-02-28'')]]
        [(''status'', ''expired'')]
      = Inr [[(''expiration'', PStr ''2023-02-28'')]]"
    by (simp add: apply_filters_def dict_get_def str_lower_def check_license_status_def date_eval)
  have h1: "\<not> truthy (dict_get [(''expiration'', PStr ''2023-02-29'')] ''expiration'' (PStr ''''))
      \<or> (\<exists>err. strptime_val (dict_get [(''expiration'', PStr ''2023-02-29'')] ''expiration''
                  (PStr '''')) = Inl err)"
    using bad by blast
  have h2: "\<not> truthy (dict_get [(''id'', PInt 2)] ''expiration'' (PStr ''''))
      \<or> (\<exists>err. strptime_val (dict_get [(''id'', PInt 2)] ''expiration'' (PStr '''')) = Inl err)"
    using missing by blast
  show ?thesis
    using bad missing run
      unparseable_expiration_matches_no_status [OF h1, of "''expired''"
        "\<lparr>year = 2024, month = 1, day = 1\<rparr>"]
      unparseable_expiration_matches_no_status [OF h2, of "''anything''"
        "\<lparr>year = 2024, month = 1, day = 1\<rparr>"]
    by blast
qed

text \<open>
  Claim C10. For a status value other than \<open>valid\<close>, \<open>expiring\<close> and \<open>expired\<close>,
  the status check is true of exactly the records whose expiration date is not
  empty and parses; so a status filter with such a value (one that is applied: the
  value is not empty) returns the records with a parseable expiration date and
  leaves out those whose expiration is empty or does not parse.
\<close>

theorem unknown_status_passes_parseable:
  assumes "status \<notin> {''valid'', ''expiring'', ''expired''}"
  shows "(check_license_status item status today \<longleftrightarrow> expiration_date item \<noteq> None)
       \<and> (status \<noteq> [] \<longrightarrow>
            apply_filters today data [(''status'', status)]
              = Inr (filter (\<lambda>r. expiration_date r \<noteq> None) data))"
  using assms
  by (auto simp: check_license_status_expiration_date apply_filters_def dict_get_def
        str_lower_def split: option.splits intro!: filter_cong)

theorem unknown_status_passes_parseable_witness:
  "''anything'' \<notin> {''valid'', ''expiring'', ''expired''}
   \<and> check_license_status [(''expiration'', PStr ''2020-01-01'')] ''anything''
       \<lparr>year = 2024, month = 1, day = 1\<rparr>
   \<and> apply_filters \<lparr>year = 2024, month = 1, day = 1\<rparr>
        [[(''expiration'', PStr ''2020-01-01'')], [(''expiration'', PStr '''')],
         [(''expiration'', PStr ''2099-1-1'')], [(''expiration'', PStr ''01/01/2099'')]]
        [(''status'', ''anything'')]
      = Inr [[(''expiration'', PStr ''2020-01-01'')], [(''expiration'', PStr ''2099-1-1'')]]"
proof -
  have st: "''anything'' \<notin> {''valid'', ''expiring'', ''expired''}" by simp
  have ne: "''anything'' \<noteq> []" by simp
  have e1: "expiration_date [(''expiration'', PStr ''2020-01-01'')] \<noteq> None"
    by (simp add: expiration_date_def dict_get_def date_eval)
  have sel: "filter (\<lambda>r. expiration_date r \<noteq> None)
               [[(''expiration'', PStr ''2020-01-01'')], [(''expiration'', PStr '''')],
                [(''expiration'', PStr ''2099-1-1'')], [(''expiration'', PStr ''01/01/2099'')]]
             = [[(''expiration'', PStr ''2020-01-01'')], [(''expiration'', PStr ''2099-1-1'')]]"
    by (simp add: expiration_date_def dict_get_def date_eval)
  show ?thesis
    using st ne e1
      unknown_status_passes_parseable [OF st, of "[(''expiration'', PStr ''2020-01-01'')]"
        "\<lparr>year = 2024, month = 1, day = 1\<rparr>"
        "[[(''expiration'', PStr ''2020-01-01'')], [(''expiration'', PStr '''')],
          [(''expiration'', PStr ''2099-1-1'')], [(''expiration'', PStr ''01/01/2099'')]]"]
    by (simp only: sel) simp
qed

section \<open>Statistics\<close>

lemma py_eq_sym: "py_eq a b \<Longrightarrow> py_eq b a"
  by (cases a; cases b) (auto simp: py_eq_def split: if_splits)

lemma py_eq_trans: "py_eq a b \<Longrightarrow> py_eq b c \<Longrightarrow> py_eq a c"
  by (cases a; cases b; cases c) (auto simp: py_eq_def split: if_splits)

lemma sum_pydict_set:
  fixes d :: "(pyval \<times> int) list"
  shows "sum_list (map snd (pydict_set d k v)) = sum_list (map snd d) - pydict_get d k 0 + v"
  by (induction d) auto

lemma pydict_get_set:
  "pydict_get (pydict_set d k v) k' dflt = (if py_eq k k' then v else pydict_get d k' dflt)"
proof (induction d)
  case Nil
  show ?case by simp
next
  case (Cons p d)
  obtain k0 v0 where p: "p = (k0, v0)" by (cases p)
  show ?case
  proof (cases "py_eq k0 k")
    case True
    then have "py_eq k0 k' \<longleftrightarrow> py_eq k k'"
      by (meson py_eq_sym py_eq_trans)
    with True p show ?thesis by simp
  next
    case False
    then have "py_eq k k' \<Longrightarrow> \<not> py_eq k0 k'"
      by (meson py_eq_sym py_eq_trans)
    with False p Cons.IH show ?thesis by auto
  qed
qed

lemma by_state_stats_step:
  "by_state (stats_step today st l) =
     pydict_set (by_state st) (dict_get l ''state'' (PStr ''Unknown''))
       (pydict_get (by_state st) (dict_get l ''state'' (PStr ''Unknown'')) 0 + 1)"
  by (simp add: stats_step_def Let_def split: sum.split)

lemma total_licenses_stats_step:
  "total_licenses (stats_step today st l) = total_licenses st"
  by (simp add: stats_step_def Let_def split: sum.split)

lemma sum_by_state_foldl:
  "sum_list (map snd (by_state (foldl (stats_step today) st R)))
     = sum_list (map snd (by_state st)) + int (length R)"
  by (induction R arbitrary: st) (simp_all add: by_state_stats_step sum_pydict_set)

lemma total_licenses_foldl:
  "total_licenses (foldl (stats_step today) st R) = total_licenses st"
  by (induction R arbitrary: st) (simp_all add: total_licenses_stats_step)

lemma pydict_get_py_eq:
  "py_eq a b \<Longrightarrow> pydict_get d a dflt = pydict_get d b dflt"
proof (induction d)
  case Nil
  show ?case by simp
next
  case (Cons p d)
  obtain k0 v0 where p: "p = (k0, v0)" by (cases p)
  from Cons.prems have "py_eq k0 a \<longleftrightarrow> py_eq k0 b"
    by (meson py_eq_sym py_eq_trans)
  with p Cons show ?case by simp
qed

lemma count_by_state_foldl:
  "pydict_get (by_state (foldl (stats_step today) st R)) k 0
     = pydict_get (by_state st) k 0
       + int (length (filter (\<lambda>r. py_eq (dict_get r ''state'' (PStr ''Unknown'')) k) R))"
proof (induction R arbitrary: st)
  case Nil
  show ?case by simp
next
  case (Cons r R)
  show ?case
  proof (cases "py_eq (dict_get r ''state'' (PStr ''Unknown'')) k")
    case True
    from pydict_get_py_eq [OF True]
    have "pydict_get (by_state st) (dict_get r ''state'' (PStr ''Unknown'')) 0
            = pydict_get (by_state st) k (0::int)" .
    with True show ?thesis
      by (simp add: Cons.IH by_state_stats_step pydict_get_set)
  next
    case False
    then show ?thesis
      by (simp add: Cons.IH by_state_stats_step pydict_get_set)
  qed
qed

text \<open>
  Claim C8. For every record set \<open>R\<close> the counts of \<open>by_state\<close> sum to the number of
  records, which is also \<open>total_licenses\<close>; and the count found under a key is the
  number of records whose state is that key (a record with no state counting under
  \<open>Unknown\<close>), so that every record is counted under exactly one key.
\<close>

theorem by_state_counts_sum_to_total:
  "sum_list (map snd (by_state (get_stats today R))) = int (length R)
   \<and> total_licenses (get_stats today R) = int (length R)
   \<and> (\<forall>k. pydict_get (by_state (get_stats today R)) k 0
           = int (length (filter (\<lambda>r. py_eq (dict_get r ''state'' (PStr ''Unknown'')) k) R)))"
  by (simp add: get_stats_def sum_by_state_foldl total_licenses_foldl count_by_state_foldl)

section \<open>Identifiers assigned by the adapter\<close>

lemma map_row_raises_any_index:
  "(case map_row isdigit to_int i row of Inl e \<Rightarrow> False | Inr l \<Rightarrow> True)
     = (case map_row isdigit to_int 0 row of Inl e \<Rightarrow> False | Inr l \<Rightarrow> True)"
  by (simp add: map_row_def split: sum.split)

lemma id_map_row:
  "map_row isdigit to_int i row = Inr l \<Longrightarrow> dict_get l ''id'' PNone = PInt (int i + 1)"
  by (auto simp: map_row_def dict_get_def split: sum.splits)

text \<open>One step of the loop: the row gives a record exactly when it is mapped.\<close>

lemma rows_loop_Cons:
  "rows_loop isdigit to_int i (row # rows) =
     (if row_mapped isdigit to_int row
      then (case map_row isdigit to_int i row of
              Inr l \<Rightarrow> l # rows_loop isdigit to_int (Suc i) rows
            | Inl e \<Rightarrow> rows_loop isdigit to_int (Suc i) rows)
      else rows_loop isdigit to_int (Suc i) rows)"
  using map_row_raises_any_index [of isdigit to_int i row]
  by (auto simp: row_mapped_def split: sum.splits)

lemma ids_of_rows_loop:
  "ids_of (rows_loop isdigit to_int i rows)
     = map (\<lambda>j. PInt (int (i + j) + 1))
         (filter (\<lambda>j. row_mapped isdigit to_int (rows ! j)) [0..<length rows])"
proof (induction rows arbitrary: i)
  case Nil
  show ?case by (simp add: ids_of_def)
next
  case (Cons row rows)
  have upt: "[0..<length (row # rows)] = 0 # map Suc [0..<length rows]"
    by (simp add: upt_conv_Cons map_Suc_upt del: upt_Suc)
  have tail: "ids_of (rows_loop isdigit to_int (Suc i) rows)
      = map (\<lambda>j. PInt (int (i + j) + 1))
          (filter (\<lambda>j. row_mapped isdigit to_int ((row # rows) ! j))
             (map Suc [0..<length rows]))"
    by (simp add: Cons.IH filter_map comp_def)
  show ?case
  proof (cases "row_mapped isdigit to_int row")
    case False
    with tail show ?thesis
      unfolding upt by (simp add: rows_loop_Cons del: rows_loop.simps)
  next
    case True
    then obtain l where l: "map_row isdigit to_int i row = Inr l"
      using map_row_raises_any_index [of isdigit to_int i row]
      by (auto simp: row_mapped_def split: sum.splits)
    from id_map_row [OF l] have "dict_get l ''id'' PNone = PInt (int i + 1)" .
    with True l tail show ?thesis
      unfolding upt by (simp add: rows_loop_Cons ids_of_def del: rows_loop.simps)
  qed
qed

lemma length_rows_loop:
  "\<forall>row\<in>set rows. row_mapped isdigit to_int row
     \<Longrightarrow> length (rows_loop isdigit to_int i rows) = length rows"
proof (induction rows arbitrary: i)
  case Nil
  show ?case by simp
next
  case (Cons row rows)
  from Cons.prems have m: "row_mapped isdigit to_int row" by simp
  then obtain l where l: "map_row isdigit to_int i row = Inr l"
    using map_row_raises_any_index [of isdigit to_int i row]
    by (auto simp: row_mapped_def split: sum.splits)
  from Cons show ?case
    by (simp add: rows_loop_Cons m l del: rows_loop.simps)
qed

lemmas adapter_eval = licenses_of_rows_def ids_of_def map_row_def dict_get_def row_mapped_def
  str_isdigit_def int_of_digits_def digits_value_def digit_of_def

text \<open>
  Claim C3, as stated, fails when an empty row stands between two rows of data: the
  identifier is the position of the row, empty rows counted, so two records come
  back with the identifiers 1 and 3.
\<close>

theorem ids_not_dense_counterexample:
  "ids_of (licenses_of_rows str_isdigit int_of_digits
             [[''#'', ''First''], [''1'', ''Ann''], [], [''3'', ''Bob'']])
     = [PInt 1, PInt 3]
   \<and> length (licenses_of_rows str_isdigit int_of_digits
               [[''#'', ''First''], [''1'', ''Ann''], [], [''3'', ''Bob'']]) = 2"
  by (simp add: adapter_eval)

text \<open>
  A row that is not empty is skipped as well when the conversion of its weight
  raises: here the weight cell holds 4301 digits, which \<open>isdigit\<close> accepts and
  \<open>int\<close> refuses.
\<close>

lemma weight_raises_row_skipped:
  "ids_of (licenses_of_rows str_isdigit int_of_digits
             [[''#''],
              [''1'', ''Ann'', ''Lee'', ''A'', ''1990-01-01'', ''CA'', ''D1'', ''LA'', ''1 Main'',
               ''90001'', ''5-10'', replicate 4301 (CHR ''9'')],
              [''2'', ''Bob'']])
     = [PInt 2]"
  by (simp add: adapter_eval list_all_iff)

text \<open>
  Claim C3, amended. For every raw fetch result, and whatever \<open>isdigit\<close> and \<open>int\<close>
  do on the weight cells, the identifier of each record returned is one more than
  the index of its row among the rows after the header, the rows the loop skips
  counted (the empty ones and those whose mapping raises); the identifiers are
  therefore increasing in output order, and when no row after the header is
  skipped they are the dense sequence \<open>1..N\<close>, \<open>N\<close> being the number of records
  returned.
\<close>

theorem ids_are_row_positions:
  "ids_of (licenses_of_rows isdigit to_int raw)
     = map (\<lambda>j. PInt (int j + 1))
         (filter (\<lambda>j. row_mapped isdigit to_int (tl raw ! j)) [0..<length (tl raw)])
   \<and> ((\<forall>row\<in>set (tl raw). row_mapped isdigit to_int row) \<longrightarrow>
        ids_of (licenses_of_rows isdigit to_int raw)
          = map (\<lambda>n. PInt (int n)) [1..<Suc (length (licenses_of_rows isdigit to_int raw))])"
proof (intro conjI impI)
  show pos: "ids_of (licenses_of_rows isdigit to_int raw)
     = map (\<lambda>j. PInt (int j + 1))
         (filter (\<lambda>j. row_mapped isdigit to_int (tl raw ! j)) [0..<length (tl raw)])"
    by (cases raw) (simp_all add: licenses_of_rows_def ids_of_rows_loop, simp add: ids_of_def)
  assume full: "\<forall>row\<in>set (tl raw). row_mapped isdigit to_int row"
  then have all: "filter (\<lambda>j. row_mapped isdigit to_int (tl raw ! j)) [0..<length (tl raw)]
                    = [0..<length (tl raw)]"
    by (auto simp: filter_id_conv simp del: length_tl)
  from full have len: "length (licenses_of_rows isdigit to_int raw) = length (tl raw)"
    by (cases raw) (simp_all add: licenses_of_rows_def length_rows_loop)
  have "map (\<lambda>n. PInt (int n)) [1..<Suc (length (tl raw))]
          = map (\<lambda>j. PInt (int j + 1)) [0..<length (tl raw)]"
    by (simp add: map_Suc_upt [symmetric] comp_def del: upt_Suc)
  with pos all len
  show "ids_of (licenses_of_rows isdigit to_int raw)
          = map (\<lambda>n. PInt (int n)) [1..<Suc (length (licenses_of_rows isdigit to_int raw))]"
    by simp
qed

theorem ids_are_row_positions_witness:
  "ids_of (licenses_of_rows str_isdigit int_of_digits
             [[''#'', ''First''],
              [''1'', ''Ann'', ''Lee'', ''A'', ''1990-01-01'', ''CA'', ''D1'', ''LA'', ''1 Main'',
               ''90001'', ''5-10'', ''150''],
              [''2'', ''Bob'']])
     = [PInt 1, PInt 2]
   \<and> length (licenses_of_rows str_isdigit int_of_digits
               [[''#'', ''First''],
                [''1'', ''Ann'', ''Lee'', ''A'', ''1990-01-01'', ''CA'', ''D1'', ''LA'', ''1 Main'',
                 ''90001'', ''5-10'', ''150''],
                [''2'', ''Bob'']]) = 2"
proof -
  have full: "\<forall>row\<in>set (tl [[''#'', ''First''],
              [''1'', ''Ann'', ''Lee'', ''A'', ''1990-01-01'', ''CA'', ''D1'', ''LA'', ''1 Main'',
               ''90001'', ''5-10'', ''150''],
              [''2'', ''Bob'']]). row_mapped str_isdigit int_of_digits row"
    by (simp add: adapter_eval)
  have len: "length (licenses_of_rows str_isdigit int_of_digits
               [[''#'', ''First''],
                [''1'', ''Ann'', ''Lee'', ''A'', ''1990-01-01'', ''CA'', ''D1'', ''LA'', ''1 Main'',
                 ''90001'', ''5-10'', ''150''],
                [''2'', ''Bob'']]) = 2"
    by (simp add: adapter_eval)
  have upt: "map (\<lambda>n. PInt (int n)) [1..<Suc 2] = [PInt 1, PInt 2]"
    by (simp add: upt_conv_Cons)
  from ids_are_row_positions [of str_isdigit int_of_digits
      "[[''#'', ''First''],
        [''1'', ''Ann'', ''Lee'', ''A'', ''1990-01-01'', ''CA'', ''D1'', ''LA'', ''1 Main'',
         ''90001'', ''5-10'', ''150''],
        [''2'', ''Bob'']]"] full
  have "ids_of (licenses_of_rows str_isdigit int_of_digits
             [[''#'', ''First''],
              [''1'', ''Ann'', ''Lee'', ''A'', ''1990-01-01'', ''CA'', ''D1'', ''LA'', ''1 Main'',
               ''90001'', ''5-10'', ''150''],
              [''2'', ''Bob'']])
     = map (\<lambda>n. PInt (int n)) [1..<Suc (length (licenses_of_rows str_isdigit int_of_digits
               [[''#'', ''First''],
                [''1'', ''Ann'', ''Lee'', ''A'', ''1990-01-01'', ''CA'', ''D1'', ''LA'', ''1 Main'',
                 ''90001'', ''5-10'', ''150''],
                [''2'', ''Bob'']]))]"
    by blast
  with len upt show ?thesis by simp
qed

section \<open>The cache\<close>

subsection \<open>The float of the elapsed time\<close>

lemma round_half_even_nonneg:
  assumes "0 \<le> a" and "0 < d"
  shows "0 \<le> round_half_even a d"
proof -
  from assms have "0 \<le> a div d" by (simp add: pos_imp_zdiv_nonneg_iff)
  then show ?thesis by (simp add: round_half_even_def Let_def)
qed

text \<open>Rounding to the nearest whole number adds at most one half.\<close>

lemma round_half_even_upper:
  assumes "0 < d"
  shows "2 * (round_half_even a d * d) \<le> 2 * a + d"
proof -
  define f where "f = a div d"
  define r where "r = a mod d"
  have a: "a = f * d + r" by (simp add: f_def r_def)
  from assms have r: "0 \<le> r" by (simp add: r_def)
  have low: "2 * (f * d) \<le> 2 * a + d" using a r assms by simp
  have up: "d \<le> 2 * r \<Longrightarrow> 2 * ((f + 1) * d) \<le> 2 * a + d"
    using a by (simp add: algebra_simps)
  show ?thesis
    unfolding round_half_even_def Let_def f_def [symmetric] r_def [symmetric]
    using low up by auto
qed

lemma total_seconds_nonpos: "us \<le> 0 \<Longrightarrow> total_seconds us \<le> 0"
proof -
  assume neg: "us \<le> 0"
  show ?thesis
  proof (cases "us = 0")
    case True
    then show ?thesis by (simp add: total_seconds_def)
  next
    case False
    define s where "s = nat (bitlen (\<bar>us\<bar> * 2 ^ 20 div 1000000) - 1)"
    define q where "q = round_half_even (\<bar>us\<bar> * 2 ^ 72) (1000000 * 2 ^ s)"
    have "0 \<le> q" unfolding q_def by (rule round_half_even_nonneg) simp_all
    then have "0 \<le> q * 2 ^ s" by simp
    moreover from False neg have "sgn us = - 1" by simp
    ultimately have "sgn us * q * 2 ^ s \<le> 0" by simp
    then have "(of_int (sgn us * q * 2 ^ s) :: rat) \<le> 0"
      by (simp only: of_int_le_0_iff)
    then have "(of_int (sgn us * q * 2 ^ s) :: rat) / 2 ^ 72 \<le> 0"
      by (intro divide_nonpos_pos) simp_all
    with False show ?thesis
      by (simp add: total_seconds_def Let_def s_def q_def)
  qed
qed

text \<open>
  Up to a timeout of \<open>2^34\<close> seconds the float cannot reach the timeout when the
  elapsed time is at least one microsecond short of it: the spacing of the doubles
  below \<open>2^34\<close> is finer than two microseconds.
\<close>

lemma total_seconds_below_timeout:
  assumes pos: "0 < us" and less: "us < T * 1000000" and bound: "T \<le> 2 ^ 34"
  shows "total_seconds us < of_int T"
proof -
  define n where "n = us * 2 ^ 20 div 1000000"
  define s where "s = nat (bitlen n - 1)"
  define D :: int where "D = 1000000 * 2 ^ s"
  define q where "q = round_half_even (us * 2 ^ 72) D"
  have "us * 2 ^ 20 < (2 ^ 54 :: int) * 1000000"
    using less bound by simp
  then have n54: "n < 2 ^ 54"
    unfolding n_def by (simp add: div_less_iff_less_mult)
  then have "bitlen n \<le> 54"
    by (simp add: bitlen_le_iff_power)
  then have s53: "s \<le> 53" by (simp add: s_def)
  have "(2::int) ^ s \<le> 2 ^ 53"
    using s53 by (intro power_increasing) simp_all
  then have D73: "D < 2 ^ 73" by (simp add: D_def)
  have Dpos: "0 < D" by (simp add: D_def)
  from less have "us + 1 \<le> T * 1000000" by simp
  then have "(us + 1) * 2 ^ 72 \<le> T * 1000000 * (2 ^ 72 :: int)"
    by (intro mult_right_mono) simp_all
  then have A: "2 * (us * 2 ^ 72) + 2 ^ 73 \<le> 2 * (T * 1000000 * (2 ^ 72 :: int))"
    by (simp add: algebra_simps)
  from round_half_even_upper [OF Dpos, of "us * 2 ^ 72"]
  have "2 * (q * D) \<le> 2 * (us * 2 ^ 72) + D" by (simp add: q_def)
  with D73 A have "2 * (q * D) < 2 * (T * 1000000 * (2 ^ 72 :: int))" by linarith
  then have "(q * 2 ^ s) * 1000000 < (T * 2 ^ 72) * (1000000 :: int)"
    by (simp add: D_def algebra_simps)
  then have "q * 2 ^ s < T * (2 ^ 72 :: int)"
    by simp
  then have "(of_int (q * 2 ^ s) :: rat) < of_int (T * 2 ^ 72)"
    by (simp only: of_int_less_iff)
  then have "(of_int (q * 2 ^ s) :: rat) / 2 ^ 72 < of_int T"
    by (simp add: divide_less_eq)
  moreover from pos have "total_seconds us = of_int (q * 2 ^ s) / 2 ^ 72"
    by (simp add: total_seconds_def Let_def q_def D_def s_def n_def)
  ultimately show ?thesis by simp
qed

lemma window_in_microseconds:
  assumes "0 < T" and "T \<le> 2 ^ 34" and "us < T * 1000000"
  shows "total_seconds us < of_int T"
proof (cases "0 < us")
  case True
  with assms show ?thesis by (simp add: total_seconds_below_timeout)
next
  case False
  then have "total_seconds us \<le> 0" by (simp add: total_seconds_nonpos)
  also from assms have "(0::rat) < of_int T" by simp
  finally show ?thesis .
qed

text \<open>
  Beyond that bound the float can reach the timeout: one microsecond short of
  20000000000 seconds it is 20000000000.0, and the test fails.
\<close>

lemma float_reaches_large_timeout:
  "(19999999999999999 :: int) < 20000000000 * 1000000
   \<and> total_seconds 19999999999999999 = 20000000000"
  by code_simp

subsection \<open>Serving from the cache\<close>

lemmas cache_eval = get_license_data_def cache_is_valid_def fetch_from_sheets_def
  GoogleSheetsConnector_get_license_data_def get_sheet_data_def licenses_of_rows_def
  refresh_data_def

lemma licenses_of_rows_Nil: "licenses_of_rows isdigit to_int [] = []"
  by (simp add: licenses_of_rows_def)

text \<open>What a fetch leaves in the trace: a request whenever it returns records.\<close>

lemma fetch_from_sheets_events:
  "fetch_from_sheets cfg w st = (licenses, events)
     \<Longrightarrow> (licenses \<noteq> [] \<longrightarrow> events = [SheetsRequest])
         \<and> (sheets_connector st = Some (Connector True)
              \<and> GOOGLE_SHEET_ID cfg \<noteq> ''YOUR_SHEET_ID_HERE'' \<longrightarrow> events = [SheetsRequest])"
  by (auto simp: fetch_from_sheets_def GoogleSheetsConnector_get_license_data_def
        get_sheet_data_def licenses_of_rows_Nil
      split: option.splits if_splits)

lemma fetch_from_sheets_frame:
  "fetch_from_sheets cfg (w\<lparr>now_at_check := n\<rparr>)
     (st\<lparr>cached_data := c, cache_timestamp := t\<rparr>) = fetch_from_sheets cfg w st"
  by (simp add: fetch_from_sheets_def GoogleSheetsConnector_get_license_data_def
        get_sheet_data_def split: option.splits)

lemma cache_hit_twice:
  assumes "cached_data st = Some d" and "d \<noteq> []" and "cache_timestamp st = Some ts"
    and "total_seconds (now_at_check w1 - ts) < of_int (CACHE_TIMEOUT cfg)"
    and "total_seconds (now_at_check w2 - ts) < of_int (CACHE_TIMEOUT cfg)"
  shows "get_license_data cfg w1 False st = (d, st, [])
       \<and> get_license_data cfg w2 False (fst (snd (get_license_data cfg w1 False st)))
           = (d, st, [])"
  using assms by (simp add: get_license_data_def cache_is_valid_def)

text \<open>
  Claim C2, as stated, fails for a cached record set that is empty: the empty list
  is false in \<open>cached_data and cache_timestamp\<close>, so the entry is not used. With no
  connector and a sample file holding \<open>[]\<close>, the first call stores the empty list
  at time 1; the second call, one microsecond later and far inside the window of 300
  seconds, opens the file again.
\<close>

theorem empty_cache_entry_counterexample:
  "get_license_data \<lparr>GOOGLE_SHEET_ID = ''YOUR_SHEET_ID_HERE'', CACHE_TIMEOUT = 300\<rparr>
     \<lparr>api_values = None, sample_file = Some [], now_at_check = 0, now_at_store = 1\<rparr> False
     \<lparr>sheets_connector = None, cached_data = None, cache_timestamp = None\<rparr>
   = ([], \<lparr>sheets_connector = None, cached_data = Some [], cache_timestamp = Some 1\<rparr>,
      [OpenSampleFile])
   \<and> (2::int) - 1 < 300 * 1000000
   \<and> total_seconds (2 - 1) < 300
   \<and> get_license_data \<lparr>GOOGLE_SHEET_ID = ''YOUR_SHEET_ID_HERE'', CACHE_TIMEOUT = 300\<rparr>
     \<lparr>api_values = None, sample_file = Some [], now_at_check = 2, now_at_store = 3\<rparr> False
     \<lparr>sheets_connector = None, cached_data = Some [], cache_timestamp = Some 1\<rparr>
   = ([], \<lparr>sheets_connector = None, cached_data = Some [], cache_timestamp = Some 3\<rparr>,
      [OpenSampleFile])"
proof -
  have float: "total_seconds (2 - 1) < 300" by code_simp
  show ?thesis using float by (simp add: cache_eval)
qed

text \<open>
  Claim C2, amended. For every cache state holding an entry whose record set is not
  empty, two calls without \<open>force_refresh\<close>, each made within the timeout window of
  the entry's timestamp, both return the cached record set, leave the state as it
  was and perform no I/O, whatever the records are. The window is the one the code
  tests: the float \<open>total_seconds()\<close> of the time elapsed since the timestamp is less
  than the timeout. For a positive timeout of at most \<open>2^34\<close> seconds that is so
  whenever the elapsed time itself, to the microsecond, is less than the timeout.
\<close>

theorem cache_hit_no_io:
  assumes "cached_data st = Some d" and "d \<noteq> []" and "cache_timestamp st = Some ts"
  shows "(total_seconds (now_at_check w1 - ts) < of_int (CACHE_TIMEOUT cfg)
          \<and> total_seconds (now_at_check w2 - ts) < of_int (CACHE_TIMEOUT cfg)
          \<longrightarrow> get_license_data cfg w1 False st = (d, st, [])
              \<and> get_license_data cfg w2 False (fst (snd (get_license_data cfg w1 False st)))
                  = (d, st, []))
       \<and> (0 < CACHE_TIMEOUT cfg \<and> CACHE_TIMEOUT cfg \<le> 2 ^ 34
          \<and> now_at_check w1 - ts < CACHE_TIMEOUT cfg * 1000000
          \<and> now_at_check w2 - ts < CACHE_TIMEOUT cfg * 1000000
          \<longrightarrow> get_license_data cfg w1 False st = (d, st, [])
              \<and> get_license_data cfg w2 False (fst (snd (get_license_data cfg w1 False st)))
                  = (d, st, []))"
proof (rule conjI; rule impI)
  assume "total_seconds (now_at_check w1 - ts) < of_int (CACHE_TIMEOUT cfg)
          \<and> total_seconds (now_at_check w2 - ts) < of_int (CACHE_TIMEOUT cfg)"
  then have first: "total_seconds (now_at_check w1 - ts) < of_int (CACHE_TIMEOUT cfg)"
    and second: "total_seconds (now_at_check w2 - ts) < of_int (CACHE_TIMEOUT cfg)"
    by blast+
  from cache_hit_twice [OF assms first second]
  show "get_license_data cfg w1 False st = (d, st, [])
      \<and> get_license_data cfg w2 False (fst (snd (get_license_data cfg w1 False st)))
          = (d, st, [])" .
next
  assume exact: "0 < CACHE_TIMEOUT cfg \<and> CACHE_TIMEOUT cfg \<le> 2 ^ 34
          \<and> now_at_check w1 - ts < CACHE_TIMEOUT cfg * 1000000
          \<and> now_at_check w2 - ts < CACHE_TIMEOUT cfg * 1000000"
  then have first: "total_seconds (now_at_check w1 - ts) < of_int (CACHE_TIMEOUT cfg)"
    and second: "total_seconds (now_at_check w2 - ts) < of_int (CACHE_TIMEOUT cfg)"
    by (simp_all add: window_in_microseconds)
  from cache_hit_twice [OF assms first second]
  show "get_license_data cfg w1 False st = (d, st, [])
      \<and> get_license_data cfg w2 False (fst (snd (get_license_data cfg w1 False st)))
          = (d, st, [])" .
qed

theorem cache_hit_no_io_witness:
  "total_seconds (10 - 0) < 300
   \<and> total_seconds (299999999 - 0) < 300
   \<and> (299999999::int) - 0 < 300 * 1000000
   \<and> get_license_data \<lparr>GOOGLE_SHEET_ID = ''sheet'', CACHE_TIMEOUT = 300\<rparr>
       \<lparr>api_values = Some [[''#''], [''1'', ''New'']], sample_file = Some [],
        now_at_check = 10, now_at_store = 11\<rparr> False
       \<lparr>sheets_connector = Some (Connector True), cached_data = Some [[(''id'', PInt 1)]],
        cache_timestamp = Some 0\<rparr>
     = ([[(''id'', PInt 1)]],
        \<lparr>sheets_connector = Some (Connector True), cached_data = Some [[(''id'', PInt 1)]],
         cache_timestamp = Some 0\<rparr>, [])
   \<and> get_license_data \<lparr>GOOGLE_SHEET_ID = ''sheet'', CACHE_TIMEOUT = 300\<rparr>
       \<lparr>api_values = None, sample_file = None,
        now_at_check = 299999999, now_at_store = 300000000\<rparr> False
       (fst (snd (get_license_data \<lparr>GOOGLE_SHEET_ID = ''sheet'', CACHE_TIMEOUT = 300\<rparr>
          \<lparr>api_values = Some [[''#''], [''1'', ''New'']], sample_file = Some [],
           now_at_check = 10, now_at_store = 11\<rparr> False
          \<lparr>sheets_connector = Some (Connector True), cached_data = Some [[(''id'', PInt 1)]],
           cache_timestamp = Some 0\<rparr>)))
     = ([[(''id'', PInt 1)]],
        \<lparr>sheets_connector = Some (Connector True), cached_data = Some [[(''id'', PInt 1)]],
         cache_timestamp = Some 0\<rparr>, [])"
proof -
  have f1: "total_seconds (10 - 0) < 300" by code_simp
  have f2: "total_seconds (299999999 - 0) < 300" by code_simp
  have in2: "(299999999::int) - 0 < 300 * 1000000" by simp
  have entry: "cached_data \<lparr>sheets_connector = Some (Connector True),
        cached_data = Some [[(''id'', PInt 1)]], cache_timestamp = Some 0\<rparr>
      = Some [[(''id'', PInt 1)]]"
    by simp
  have nonempty: "[[(''id'', PInt 1)]] \<noteq> ([] :: license list)" by simp
  have stamp: "cache_timestamp \<lparr>sheets_connector = Some (Connector True),
        cached_data = Some [[(''id'', PInt 1)]], cache_timestamp = Some 0\<rparr> = Some 0"
    by simp
  have exact: "0 < CACHE_TIMEOUT \<lparr>GOOGLE_SHEET_ID = ''sheet'', CACHE_TIMEOUT = 300\<rparr>
      \<and> CACHE_TIMEOUT \<lparr>GOOGLE_SHEET_ID = ''sheet'', CACHE_TIMEOUT = 300\<rparr> \<le> 2 ^ 34
      \<and> now_at_check \<lparr>api_values = Some [[''#''], [''1'', ''New'']],
            sample_file = Some [], now_at_check = 10, now_at_store = 11\<rparr> - 0
          < CACHE_TIMEOUT \<lparr>GOOGLE_SHEET_ID = ''sheet'', CACHE_TIMEOUT = 300\<rparr> * 1000000
      \<and> now_at_check \<lparr>api_values = None, sample_file = None,
            now_at_check = 299999999, now_at_store = 300000000\<rparr> - 0
          < CACHE_TIMEOUT \<lparr>GOOGLE_SHEET_ID = ''sheet'', CACHE_TIMEOUT = 300\<rparr> * 1000000"
    by simp
  from cache_hit_no_io [OF entry nonempty stamp,
      of "\<lparr>api_values = Some [[''#''], [''1'', ''New'']], sample_file = Some [],
           now_at_check = 10, now_at_store = 11\<rparr>"
         "\<lparr>GOOGLE_SHEET_ID = ''sheet'', CACHE_TIMEOUT = 300\<rparr>"
         "\<lparr>api_values = None, sample_file = None,
           now_at_check = 299999999, now_at_store = 300000000\<rparr>"] exact f1 f2 in2
  show ?thesis by blast
qed

text \<open>
  Claim C4. A forced refresh never takes the cache path, whatever the entry and
  however recent its timestamp. The handler \<open>refresh_data\<close> clears the entry before
  the fetch and fallback logic runs, so that its outcome depends neither on the
  entry nor on the time of the call, and the state it leaves holds either no entry
  or a fresh one stamped at the time of storing. The logic always attempts I/O (the
  trace is never empty; trace and number of records are those of
  \<open>get_license_data\<close> with \<open>force_refresh\<close> on the state as it was), and with an authenticated connector and a configured sheet
  the attempt is a request to the spreadsheet service.
\<close>

theorem force_refresh_invalidates_and_fetches:
  "\<not> cache_is_valid cfg w True st
   \<and> refresh_data cfg (w\<lparr>now_at_check := n\<rparr>) (st\<lparr>cached_data := c, cache_timestamp := t\<rparr>)
       = refresh_data cfg w st
   \<and> snd (snd (refresh_data cfg w st)) \<noteq> []
   \<and> snd (snd (get_license_data cfg w True st)) = snd (snd (refresh_data cfg w st))
   \<and> int (length (fst (get_license_data cfg w True st))) = fst (refresh_data cfg w st)
   \<and> (sheets_connector st = Some (Connector True)
        \<and> GOOGLE_SHEET_ID cfg \<noteq> ''YOUR_SHEET_ID_HERE''
        \<longrightarrow> hd (snd (snd (refresh_data cfg w st))) = SheetsRequest)
   \<and> (case cached_data (fst (snd (refresh_data cfg w st))) of
         None \<Rightarrow> cache_timestamp (fst (snd (refresh_data cfg w st))) = None
       | Some d \<Rightarrow> cache_timestamp (fst (snd (refresh_data cfg w st))) = Some (now_at_store w)
                   \<and> int (length d) = fst (refresh_data cfg w st))"
proof -
  obtain licenses events where f: "fetch_from_sheets cfg w st = (licenses, events)"
    by (cases "fetch_from_sheets cfg w st")
  have f': "fetch_from_sheets cfg w (st\<lparr>cached_data := None, cache_timestamp := None\<rparr>)
              = (licenses, events)"
    using fetch_from_sheets_frame [where cfg = cfg and w = w and n = "now_at_check w"
        and st = st and c = None and t = None] f by simp
  have f'': "fetch_from_sheets cfg (w\<lparr>now_at_check := n\<rparr>)
               (st\<lparr>cached_data := None, cache_timestamp := None\<rparr>) = (licenses, events)"
    using fetch_from_sheets_frame [where cfg = cfg and w = w and n = n
        and st = st and c = None and t = None] f by simp
  note ev = fetch_from_sheets_events [OF f]
  have invalid: "\<not> cache_is_valid cfg w True st"
    by (simp add: cache_is_valid_def split: option.splits)
  have invalid': "\<And>w' c' t'. \<not> cache_is_valid cfg w' True (st\<lparr>cached_data := c', cache_timestamp := t'\<rparr>)"
    by (simp add: cache_is_valid_def split: option.splits)
  have frame: "refresh_data cfg (w\<lparr>now_at_check := n\<rparr>)
                 (st\<lparr>cached_data := c, cache_timestamp := t\<rparr>) = refresh_data cfg w st"
    using invalid' f' f''
    by (simp add: refresh_data_def get_license_data_def split: option.splits)
  have events_ne: "snd (snd (refresh_data cfg w st)) \<noteq> []"
    using invalid' f' ev
    by (auto simp: refresh_data_def get_license_data_def split: option.splits)
  have same_events:
    "snd (snd (get_license_data cfg w True st)) = snd (snd (refresh_data cfg w st))"
    using invalid invalid' f f'
    by (auto simp: refresh_data_def get_license_data_def split: option.splits)
  have same_count:
    "int (length (fst (get_license_data cfg w True st))) = fst (refresh_data cfg w st)"
    using invalid invalid' f f'
    by (auto simp: refresh_data_def get_license_data_def split: option.splits)
  have request: "sheets_connector st = Some (Connector True)
        \<and> GOOGLE_SHEET_ID cfg \<noteq> ''YOUR_SHEET_ID_HERE''
        \<longrightarrow> hd (snd (snd (refresh_data cfg w st))) = SheetsRequest"
    using invalid' f' ev
    by (auto simp: refresh_data_def get_license_data_def split: option.splits)
  have after: "(case cached_data (fst (snd (refresh_data cfg w st))) of
         None \<Rightarrow> cache_timestamp (fst (snd (refresh_data cfg w st))) = None
       | Some d \<Rightarrow> cache_timestamp (fst (snd (refresh_data cfg w st))) = Some (now_at_store w)
                   \<and> int (length d) = fst (refresh_data cfg w st))"
    using invalid' f'
    by (auto simp: refresh_data_def get_license_data_def split: option.splits)
  from invalid frame events_ne same_events same_count request after show ?thesis by blast
qed

theorem force_refresh_invalidates_and_fetches_witness:
  "refresh_data \<lparr>GOOGLE_SHEET_ID = ''sheet'', CACHE_TIMEOUT = 300\<rparr>
     \<lparr>api_values = None, sample_file = None, now_at_check = 10, now_at_store = 11\<rparr>
     \<lparr>sheets_connector = Some (Connector True), cached_data = Some [[(''id'', PInt 1)]],
      cache_timestamp = Some 9\<rparr>
   = (0, \<lparr>sheets_connector = Some (Connector True), cached_data = None,
          cache_timestamp = None\<rparr>, [SheetsRequest, OpenSampleFile])
   \<and> hd (snd (snd (refresh_data \<lparr>GOOGLE_SHEET_ID = ''sheet'', CACHE_TIMEOUT = 300\<rparr>
     \<lparr>api_values = None, sample_file = None, now_at_check = 10, now_at_store = 11\<rparr>
     \<lparr>sheets_connector = Some (Connector True), cached_data = Some [[(''id'', PInt 1)]],
      cache_timestamp = Some 9\<rparr>))) = SheetsRequest"
proof -
  have run: "refresh_data \<lparr>GOOGLE_SHEET_ID = ''sheet'', CACHE_TIMEOUT = 300\<rparr>
     \<lparr>api_values = None, sample_file = None, now_at_check = 10, now_at_store = 11\<rparr>
     \<lparr>sheets_connector = Some (Connector True), cached_data = Some [[(''id'', PInt 1)]],
      cache_timestamp = Some 9\<rparr>
   = (0, \<lparr>sheets_connector = Some (Connector True), cached_data = None,
          cache_timestamp = None\<rparr>, [SheetsRequest, OpenSampleFile])"
    by (simp add: cache_eval)
  have conf: "sheets_connector \<lparr>sheets_connector = Some (Connector True),
        cached_data = Some [[(''id'', PInt 1)]], cache_timestamp = Some 9\<rparr>
      = Some (Connector True)
      \<and> GOOGLE_SHEET_ID \<lparr>GOOGLE_SHEET_ID = ''sheet'', CACHE_TIMEOUT = 300\<rparr>
          \<noteq> ''YOUR_SHEET_ID_HERE''"
    by simp
  from force_refresh_invalidates_and_fetches
    [of "\<lparr>GOOGLE_SHEET_ID = ''sheet'', CACHE_TIMEOUT = 300\<rparr>"
        "\<lparr>api_values = None, sample_file = None, now_at_check = 10, now_at_store = 11\<rparr>"
        "\<lparr>sheets_connector = Some (Connector True), cached_data = Some [[(''id'', PInt 1)]],
          cache_timestamp = Some 9\<rparr>"] conf
  have "hd (snd (snd (refresh_data \<lparr>GOOGLE_SHEET_ID = ''sheet'', CACHE_TIMEOUT = 300\<rparr>
     \<lparr>api_values = None, sample_file = None, now_at_check = 10, now_at_store = 11\<rparr>
     \<lparr>sheets_connector = Some (Connector True), cached_data = Some [[(''id'', PInt 1)]],
      cache_timestamp = Some 9\<rparr>))) = SheetsRequest"
    by blast
  with run show ?thesis by blast
qed

section \<open>The barcode handler\<close>

text \<open>
  Claim C9. A request to \<open>/api/pdf417\<close> whose \<open>data\<close> parameter is missing or
  empty is answered with status 400 and the body
  \<open>{success: false, error: "No data provided"}\<close>, whatever the encoder and the
  image library would do and whether or not the encoder is installed; nothing is
  handed to the encoder.
\<close>

theorem pdf417_no_data_rejected:
  assumes "map_of args ''data'' = None \<or> map_of args ''data'' = Some ''''"
  shows "generate_pdf417 available pdf417_encode png_base64 args
           = (([(''success'', JBool False), (''error'', JStr ''No data provided'')], 400), [])"
  using assms by (auto simp: generate_pdf417_def dict_get_def)

theorem pdf417_no_data_rejected_witness:
  "map_of ([] :: (string \<times> string) list) ''data'' = None
   \<and> generate_pdf417 True (\<lambda>s. Inr [[1, 0, 1]]) (\<lambda>w h r. Inr ''iVBOR'') []
       = (([(''success'', JBool False), (''error'', JStr ''No data provided'')], 400), [])
   \<and> map_of [(''data'', '''')] ''data'' = Some ''''
   \<and> generate_pdf417 True (\<lambda>s. Inr [[1, 0, 1]]) (\<lambda>w h r. Inr ''iVBOR'') [(''data'', '''')]
       = (([(''success'', JBool False), (''error'', JStr ''No data provided'')], 400), [])
   \<and> generate_pdf417 True (\<lambda>s. Inr [[1, 0, 1]]) (\<lambda>w h r. Inr ''iVBOR'') [(''data'', ''x'')]
       = (([(''success'', JBool True), (''barcode'', JStr ''data:image/png;base64,iVBOR'')],
           200), [''x''])"
proof -
  have missing: "map_of ([] :: (string \<times> string) list) ''data'' = None
      \<or> map_of ([] :: (string \<times> string) list) ''data'' = Some ''''"
    by simp
  have empty: "map_of [(''data'', '''')] ''data'' = None
      \<or> map_of [(''data'', '''')] ''data'' = Some ''''"
    by simp
  have other: "generate_pdf417 True (\<lambda>s. Inr [[1, 0, 1]]) (\<lambda>w h r. Inr ''iVBOR'')
        [(''data'', ''x'')]
       = (([(''success'', JBool True), (''barcode'', JStr ''data:image/png;base64,iVBOR'')],
           200), [''x''])"
    by (simp add: generate_pdf417_def dict_get_def)
  show ?thesis
    using other
      pdf417_no_data_rejected [OF missing, of True "\<lambda>s. Inr [[1, 0, 1]]"
        "\<lambda>w h r. Inr ''iVBOR''"]
      pdf417_no_data_rejected [OF empty, of True "\<lambda>s. Inr [[1, 0, 1]]"
        "\<lambda>w h r. Inr ''iVBOR''"]
    by simp
qed

end
